theory Spec2Isabelle
  imports Main
begin

section \<open>Parallel coordinates: \<^verbatim>\<open>yellowbrick/features/pcoords.py\<close>\<close>

text \<open>
  A shallow embedding of the class \<^verbatim>\<open>ParallelCoordinates\<close>: its constructor and its
  method \<^verbatim>\<open>fit\<close>. The visualizer object is a record that is passed in and returned
  updated. The matplotlib axes the method draws on are a log of the calls made on them,
  in call order. A Python exception is a value; since the axes and the visualizer are
  mutable objects, the exception comes with the state reached when it was raised.
\<close>

subsection \<open>Python values\<close>

text \<open>The exceptions the method can raise, each with its argument.\<close>

datatype py_error = TypeError string | IndexError string | KeyError string

definition quoted :: "string \<Rightarrow> string" where
  "quoted s = CHR 0x27 # s @ [CHR 0x27]"

definition not_iterable :: string where
  "not_iterable = quoted ''NoneType'' @ '' object is not iterable''"

definition no_getitem :: string where
  "no_getitem = quoted ''NoneType'' @ '' object has no attribute '' @ quoted ''__getitem__''"

definition bad_index_type :: string where
  "bad_index_type = ''list indices must be integers, not str''"

definition out_of_range :: string where
  "out_of_range = ''list index out of range''"

definition cannot_fit :: string where
  "cannot_fit = ''cannot fit '' @ quoted ''long'' @ '' into an index-sized integer''"

text \<open>\<^verbatim>\<open>sys.maxsize\<close>, the largest \<^verbatim>\<open>Py_ssize_t\<close>, of a 64-bit build.\<close>

definition maxsize :: int where
  "maxsize = 2 ^ 63 - 1"

text \<open>A raw label of the target vector: an integer or a string.\<close>

datatype label = LInt int | LStr string

text \<open>\<^verbatim>\<open>str\<close> on a non-negative integer, on an integer and on a label.\<close>

definition digit :: "nat \<Rightarrow> char" where
  "digit d = ''0123456789'' ! d"

fun str_nat :: "nat \<Rightarrow> string" where
  "str_nat n = (if n < 10 then [digit n] else str_nat (n div 10) @ [digit (n mod 10)])"

declare str_nat.simps [simp del]

definition str_int :: "int \<Rightarrow> string" where
  "str_int i = (if i < 0 then CHR ''-'' # str_nat (nat (- i)) else str_nat (nat i))"

fun str_label :: "label \<Rightarrow> string" where
  "str_label (LInt i) = str_int i"
| "str_label (LStr s) = s"

text \<open>
  \<^verbatim>\<open>xs[i]\<close> on a list: a negative index counts from the end, an index outside
  \<open>[-len, len)\<close> raises. A Python integer is unbounded: one that does not fit
  \<^verbatim>\<open>Py_ssize_t\<close> raises when it is converted, with a message of its own. A list has at
  most \<open>maxsize\<close> elements, so an index within its bounds always fits, and testing the
  bounds first changes nothing.
\<close>

definition py_index :: "'a list \<Rightarrow> int \<Rightarrow> py_error + 'a" where
  "py_index xs i =
     (if 0 \<le> i \<and> i < int (length xs) then Inr (xs ! nat i)
      else if i < 0 \<and> - int (length xs) \<le> i then Inr (xs ! nat (int (length xs) + i))
      else if i < - maxsize - 1 \<or> maxsize < i then Inl (IndexError cannot_fit)
      else Inl (IndexError out_of_range))"

text \<open>\<^verbatim>\<open>dict(pairs)\<close>: for a repeated key the later pair wins.\<close>

definition py_dict :: "('k \<times> 'v) list \<Rightarrow> ('k \<rightharpoonup> 'v)" where
  "py_dict kvs = map_of (rev kvs)"

subsection \<open>The collaborators\<close>

text \<open>
  The matrix \<^verbatim>\<open>X\<close> is used through three things only: \<^verbatim>\<open>X.shape\<close>, the attribute
  \<^verbatim>\<open>columns\<close> when it has one, and the sequence iterating it yields (the rows of an
  array). The method never looks inside a row, so its type is a parameter.
\<close>

record 'r matrix =
  shape :: "nat \<times> nat"
  columns :: "string list option"
  items :: "'r list"

text \<open>A keyword value of the guide-line style, and the calls made on the axes.\<close>

datatype kwval = KInt int | KStr string

type_synonym style = "(string \<times> kwval) list"

datatype 'r draw_op =
    is_Plot: Plot (plot_x: "nat list") (plot_row: 'r) (plot_color: string) (plot_label: string)
  | is_Axvline: Axvline nat style
  | is_SetXticks: SetXticks "nat list"
  | is_SetXticklabels: SetXticklabels "string list"
  | is_SetXlim: SetXlim nat nat

type_synonym 'r canvas = "'r draw_op list"

text \<open>
  What the method takes from outside the class: \<^verbatim>\<open>resolve_colors\<close> of
  \<^verbatim>\<open>yellowbrick.color_utils\<close> (called with the number of colors, the colormap and the
  color list), the order in which \<^verbatim>\<open>set(y)\<close> is iterated, and the current axes
  \<^verbatim>\<open>plt.gca()\<close>.
\<close>

record 'r env =
  resolve_colors :: "nat \<Rightarrow> string option \<Rightarrow> string list option \<Rightarrow> string list"
  set_iter :: "label list \<Rightarrow> label list"
  gca :: "'r canvas"

subsection \<open>The visualizer\<close>

text \<open>
  The attributes of the object. \<open>self_features\<close> and \<open>self_classes\<close> stand for
  \<^verbatim>\<open>self.features_\<close> and \<^verbatim>\<open>self.classes_\<close>.
\<close>

record 'r pcoords =
  ax :: "'r canvas option"
  self_features :: "string list option"
  self_classes :: "string list option"
  color :: "string list option"
  colormap :: "string option"
  show_vlines :: bool
  vlines_kwds :: style

definition default_vlines_kwds :: style where
  "default_vlines_kwds = [(''linewidth'', KInt 1), (''color'', KStr ''black'')]"

text \<open>
  \<^verbatim>\<open>__init__(self, ax=None, features=None, classes=None, color=None, colormap=None,
  vlines=True, vlines_kwds=None)\<close>. The expression \<^verbatim>\<open>vlines_kwds or {...}\<close> takes the
  default for \<^verbatim>\<open>None\<close> and for the empty dictionary, both being false in Python.
\<close>

definition init ::
  "'r canvas option \<Rightarrow> string list option \<Rightarrow> string list option \<Rightarrow> string list option \<Rightarrow>
   string option \<Rightarrow> bool \<Rightarrow> style option \<Rightarrow> 'r pcoords" where
  "init ax0 features classes color0 colormap0 vlines vlines_kwds0 =
     \<lparr> ax = ax0,
       self_features = features,
       self_classes = classes,
       color = color0,
       colormap = colormap0,
       show_vlines = vlines,
       vlines_kwds = (case vlines_kwds0 of
                        None \<Rightarrow> default_vlines_kwds
                      | Some kw \<Rightarrow> if kw = [] then default_vlines_kwds else kw) \<rparr>"

text \<open>\<^verbatim>\<open>ParallelCoordinates()\<close>: every parameter at its default.\<close>

definition init_defaults :: "'r pcoords" where
  "init_defaults = init None None None None None True None"

subsection \<open>The method \<^verbatim>\<open>fit\<close>\<close>

text \<open>Lines 106 to 108: the classes, from the target vector when they are not set.\<close>

definition resolve_classes ::
  "'r env \<Rightarrow> 'r pcoords \<Rightarrow> label list option \<Rightarrow> py_error + string list" where
  "resolve_classes env self y =
     (case self_classes self of
        Some cs \<Rightarrow> Inr cs
      | None \<Rightarrow>
          (case y of
             None \<Rightarrow> Inl (TypeError not_iterable)
           | Some ys \<Rightarrow> Inr (map str_label (set_iter env ys))))"

text \<open>Lines 111 to 121: the feature names, from the matrix when they are not set.\<close>

definition resolve_features :: "'r pcoords \<Rightarrow> 'r matrix \<Rightarrow> nat \<Rightarrow> string list" where
  "resolve_features self X ncols =
     (case self_features self of
        Some fs \<Rightarrow> fs
      | None \<Rightarrow>
          (case columns X of
             Some cols \<Rightarrow> cols
           | None \<Rightarrow> map str_nat [0..<ncols]))"

text \<open>
  Lines 141 to 143, the body of the loop over the instances: \<^verbatim>\<open>y[idx]\<close>, then
  \<^verbatim>\<open>self.classes_[label]\<close>, then \<^verbatim>\<open>colors[label]\<close>, then the call of \<^verbatim>\<open>plot\<close>.
\<close>

definition instance_line ::
  "string list \<Rightarrow> (string \<rightharpoonup> string) \<Rightarrow> nat list \<Rightarrow> label list option \<Rightarrow> nat \<Rightarrow> 'r \<Rightarrow>
   py_error + 'r draw_op" where
  "instance_line classes colors x y idx row =
     (case (case y of
              None \<Rightarrow> Inl (TypeError no_getitem)
            | Some ys \<Rightarrow> py_index ys (int idx)) of
        Inl e \<Rightarrow> Inl e
      | Inr lab \<Rightarrow>
          (case (case lab of
                   LStr s \<Rightarrow> Inl (TypeError bad_index_type)
                 | LInt k \<Rightarrow> py_index classes k) of
             Inl e \<Rightarrow> Inl e
           | Inr name \<Rightarrow>
               (case colors name of
                  None \<Rightarrow> Inl (KeyError name)
                | Some col \<Rightarrow> Inr (Plot x row col name))))"

text \<open>Lines 139 to 143: the loop; an exception leaves the lines drawn so far.\<close>

fun add_instances ::
  "string list \<Rightarrow> (string \<rightharpoonup> string) \<Rightarrow> nat list \<Rightarrow> label list option \<Rightarrow> (nat \<times> 'r) list \<Rightarrow>
   'r canvas \<Rightarrow> (py_error \<times> 'r canvas) + 'r canvas" where
  "add_instances classes colors x y [] c = Inr c"
| "add_instances classes colors x y ((idx, row) # rest) c =
     (case instance_line classes colors x y idx row of
        Inl e \<Rightarrow> Inl (e, c)
      | Inr line \<Rightarrow> add_instances classes colors x y rest (c @ [line]))"

text \<open>Lines 146 to 148: the vertical lines.\<close>

definition add_vlines :: "'r pcoords \<Rightarrow> nat list \<Rightarrow> 'r canvas \<Rightarrow> 'r canvas" where
  "add_vlines self x c =
     (if show_vlines self
      then foldl (\<lambda>c' idx. c' @ [Axvline idx (vlines_kwds self)]) c x
      else c)"

text \<open>Line 128: the axes of the visualizer, else the current axes.\<close>

definition canvas0 :: "'r env \<Rightarrow> 'r pcoords \<Rightarrow> 'r canvas" where
  "canvas0 env self = (case ax self of None \<Rightarrow> gca env | Some c \<Rightarrow> c)"

text \<open>
  Lines 131 to 134: one color for each class from \<^verbatim>\<open>resolve_colors\<close>, and the dictionary
  \<^verbatim>\<open>dict(zip(self.classes_, color_values))\<close>; \<^verbatim>\<open>zip\<close> stops at the shorter list.
\<close>

definition color_values :: "'r env \<Rightarrow> 'r pcoords \<Rightarrow> string list \<Rightarrow> string list" where
  "color_values env self cs = resolve_colors env (length cs) (colormap self) (color self)"

definition color_mapping :: "'r env \<Rightarrow> 'r pcoords \<Rightarrow> string list \<Rightarrow> (string \<rightharpoonup> string)" where
  "color_mapping env self cs = py_dict (zip cs (color_values env self cs))"

text \<open>
  The whole method. The statement \<^verbatim>\<open>print colors\<close> of line 136 writes to the standard
  output and changes nothing else; it is left out. In line 153 the arguments \<^verbatim>\<open>x[0]\<close>
  and \<^verbatim>\<open>x[-1]\<close> are evaluated before \<^verbatim>\<open>set_xlim\<close> is called. The axes record the
  calls and raise nothing themselves.
\<close>

definition fit ::
  "'r env \<Rightarrow> 'r pcoords \<Rightarrow> 'r matrix \<Rightarrow> label list option \<Rightarrow>
   (py_error \<times> 'r pcoords) + 'r pcoords" where
  "fit env self X y =
     (case shape X of (nrows, ncols) \<Rightarrow>
      (case resolve_classes env self y of
         Inl e \<Rightarrow> Inl (e, self)
       | Inr cs \<Rightarrow>
           (let self1 = self\<lparr>self_classes := Some cs\<rparr>;
                fs = resolve_features self1 X ncols;
                self2 = self1\<lparr>self_features := Some fs\<rparr>;
                x = [0..<ncols];
                c0 = canvas0 env self2;
                colors = color_mapping env self2 cs
            in case add_instances cs colors x y (enumerate 0 (items X)) c0 of
                 Inl (e, c1) \<Rightarrow> Inl (e, self2\<lparr>ax := Some c1\<rparr>)
               | Inr c1 \<Rightarrow>
                   (let c2 = add_vlines self2 x c1;
                        c3 = c2 @ [SetXticks x, SetXticklabels fs]
                    in case py_index x 0 of
                         Inl e \<Rightarrow> Inl (e, self2\<lparr>ax := Some c3\<rparr>)
                       | Inr lo \<Rightarrow>
                           (case py_index x (- 1) of
                              Inl e \<Rightarrow> Inl (e, self2\<lparr>ax := Some c3\<rparr>)
                            | Inr hi \<Rightarrow> Inr (self2\<lparr>ax := Some (c3 @ [SetXlim lo hi])\<rparr>))))))"

subsection \<open>Reading an outcome\<close>

text \<open>The visualizer after the call, whether it returned or raised.\<close>

definition state_of :: "(py_error \<times> 'r pcoords) + 'r pcoords \<Rightarrow> 'r pcoords" where
  "state_of r = (case r of Inl (e, s) \<Rightarrow> s | Inr s \<Rightarrow> s)"

text \<open>The calls the method has added to the axes.\<close>

definition drawn :: "'r env \<Rightarrow> 'r pcoords \<Rightarrow> 'r pcoords \<Rightarrow> 'r canvas" where
  "drawn env self self' =
     (case ax self' of None \<Rightarrow> [] | Some c \<Rightarrow> drop (length (canvas0 env self)) c)"

subsection \<open>Notions used in the statements and proofs\<close>

text \<open>The guide lines of lines 146 to 148 as a list of calls.\<close>

definition guide_lines :: "'r pcoords \<Rightarrow> nat \<Rightarrow> 'r canvas" where
  "guide_lines self F =
     (if show_vlines self then map (\<lambda>i. Axvline i (vlines_kwds self)) [0..<F] else [])"

text \<open>The calls of \<^verbatim>\<open>plot\<close> for a list of numbered rows none of which raises.\<close>

definition lines_of ::
  "string list \<Rightarrow> (string \<rightharpoonup> string) \<Rightarrow> nat list \<Rightarrow> label list option \<Rightarrow>
   (nat \<times> 'r) list \<Rightarrow> 'r canvas" where
  "lines_of cs colors x y ps =
     map (\<lambda>(idx, row). projr (instance_line cs colors x y idx row)) ps"

text \<open>The loop as \<open>fit\<close> runs it, and the visualizer \<open>fit\<close> leaves with given axes.\<close>

definition loop_result ::
  "'r env \<Rightarrow> 'r pcoords \<Rightarrow> 'r matrix \<Rightarrow> label list option \<Rightarrow> string list \<Rightarrow>
   (py_error \<times> 'r canvas) + 'r canvas" where
  "loop_result env self X y cs =
     add_instances cs (color_mapping env self cs) [0..<snd (shape X)] y
       (enumerate 0 (items X)) (canvas0 env self)"

definition finished :: "'r pcoords \<Rightarrow> 'r matrix \<Rightarrow> string list \<Rightarrow> 'r canvas \<Rightarrow> 'r pcoords" where
  "finished self X cs c =
     self\<lparr>self_classes := Some cs,
          self_features := Some (resolve_features self X (snd (shape X))),
          ax := Some c\<rparr>"

definition ticks :: "'r pcoords \<Rightarrow> 'r matrix \<Rightarrow> 'r canvas" where
  "ticks self X =
     [SetXticks [0..<snd (shape X)], SetXticklabels (resolve_features self X (snd (shape X)))]"

text \<open>Reading a decimal numeral back, to check \<open>str_nat\<close> against.\<close>

definition digit_val :: "char \<Rightarrow> nat" where
  "digit_val ch = of_char ch - of_char CHR ''0''"

definition nat_of_str :: "string \<Rightarrow> nat" where
  "nat_of_str s = foldl (\<lambda>a ch. 10 * a + digit_val ch) 0 s"

subsection \<open>Concrete inputs\<close>

text \<open>
  A color collaborator that returns as many colors as it is asked for, a set iteration in
  list order, empty current axes; a matrix of two rows and three columns, without and with
  column labels; two labels; a visualizer built with every parameter at its default, the same
  after \<open>fit\<close> on the matrix and the labels, one built with a class list, and one built
  with a class list and two feature names.
\<close>

definition ex_env :: "int list env" where
  "ex_env = \<lparr> resolve_colors = (\<lambda>n cm col. map (\<lambda>i. CHR ''C'' # str_nat i) [0..<n]),
              set_iter = remdups, gca = [] \<rparr>"

definition ex_X :: "int list matrix" where
  "ex_X = \<lparr> shape = (2, 3), columns = None, items = [[1, 2, 3], [4, 5, 6]] \<rparr>"

definition ex_frame :: "int list matrix" where
  "ex_frame = \<lparr> shape = (2, 3), columns = Some [''a'', ''b'', ''c''], items = [[1, 2, 3], [4, 5, 6]] \<rparr>"

definition ex_y :: "label list" where
  "ex_y = [LInt 0, LInt 1]"

definition ex_new :: "int list pcoords" where
  "ex_new = init None None None None None True None"

definition ex_done :: "int list pcoords" where
  "ex_done =
     \<lparr> ax = Some [Plot [0, 1, 2] [1, 2, 3] ''C0'' ''0'',
                  Plot [0, 1, 2] [4, 5, 6] ''C1'' ''1'',
                  Axvline 0 [(''linewidth'', KInt 1), (''color'', KStr ''black'')],
                  Axvline 1 [(''linewidth'', KInt 1), (''color'', KStr ''black'')],
                  Axvline 2 [(''linewidth'', KInt 1), (''color'', KStr ''black'')],
                  SetXticks [0, 1, 2],
                  SetXticklabels [''0'', ''1'', ''2''],
                  SetXlim 0 2],
       self_features = Some [''0'', ''1'', ''2''],
       self_classes = Some [''0'', ''1''],
       color = None,
       colormap = None,
       show_vlines = True,
       vlines_kwds = [(''linewidth'', KInt 1), (''color'', KStr ''black'')] \<rparr>"

definition ex_classed :: "int list pcoords" where
  "ex_classed = init None None (Some [''x'', ''y'']) None None True None"

definition ex_named :: "int list pcoords" where
  "ex_named = init None (Some [''a'', ''b'']) (Some [''x'', ''y'']) None None True None"

section \<open>Basic facts\<close>

lemma foldl_snoc_map: "foldl (\<lambda>c' i. c' @ [f i]) c xs = c @ map f xs"
  by (induction xs arbitrary: c) simp_all

lemma add_vlines_eq:
  "add_vlines self x c =
     c @ (if show_vlines self then map (\<lambda>i. Axvline i (vlines_kwds self)) x else [])"
  by (simp add: add_vlines_def foldl_snoc_map)

lemma py_index_Nil: "py_index [] 0 = Inl (IndexError out_of_range)"
  by (simp add: py_index_def maxsize_def)

lemma py_index_upt_first: "0 < F \<Longrightarrow> py_index [0..<F] 0 = Inr 0"
  by (simp add: py_index_def)

lemma py_index_upt_last: "0 < F \<Longrightarrow> py_index [0..<F] (- 1) = Inr (F - 1)"
  by (auto simp: py_index_def Let_def nat_diff_distrib' nat_add_distrib)

lemma add_instances_all_ok:
  "\<forall>p \<in> set ps. \<not> isl (instance_line cs colors x y (fst p) (snd p)) \<Longrightarrow>
   add_instances cs colors x y ps c = Inr (c @ lines_of cs colors x y ps)"
proof (induction ps arbitrary: c)
  case Nil
  show ?case by (simp add: lines_of_def)
next
  case (Cons p ps)
  obtain idx row where p: "p = (idx, row)" by (cases p)
  from Cons.prems p obtain l where l: "instance_line cs colors x y idx row = Inr l"
    by (cases "instance_line cs colors x y idx row") auto
  from Cons.prems have "\<forall>q \<in> set ps. \<not> isl (instance_line cs colors x y (fst q) (snd q))"
    by simp
  from Cons.IH [OF this, of "c @ [l]"] show ?case
    by (simp add: p l lines_of_def)
qed

lemma add_instances_first_error:
  "\<forall>p \<in> set pre. \<not> isl (instance_line cs colors x y (fst p) (snd p)) \<Longrightarrow>
   instance_line cs colors x y idx row = Inl e \<Longrightarrow>
   add_instances cs colors x y (pre @ (idx, row) # post) c = Inl (e, c @ lines_of cs colors x y pre)"
proof (induction pre arbitrary: c)
  case Nil
  then show ?case by (simp add: lines_of_def)
next
  case (Cons p pre)
  obtain i r where p: "p = (i, r)" by (cases p)
  from Cons.prems p obtain l where l: "instance_line cs colors x y i r = Inr l"
    by (cases "instance_line cs colors x y i r") auto
  from Cons.prems have "\<forall>q \<in> set pre. \<not> isl (instance_line cs colors x y (fst q) (snd q))"
    by simp
  from Cons.IH [OF this Cons.prems(2), of "c @ [l]"] show ?case
    by (simp add: p l lines_of_def)
qed

lemma add_instances_InrD:
  "add_instances cs colors x y ps c = Inr c' \<Longrightarrow>
   c' = c @ lines_of cs colors x y ps \<and>
   (\<forall>p \<in> set ps. \<not> isl (instance_line cs colors x y (fst p) (snd p)))"
proof (induction ps arbitrary: c)
  case Nil
  then show ?case by (simp add: lines_of_def)
next
  case (Cons p ps)
  obtain idx row where p: "p = (idx, row)" by (cases p)
  show ?case
  proof (cases "instance_line cs colors x y idx row")
    case (Inl e)
    with Cons.prems p show ?thesis by simp
  next
    case (Inr l)
    with Cons.prems p have "add_instances cs colors x y ps (c @ [l]) = Inr c'" by simp
    from Cons.IH [OF this] show ?thesis by (simp add: p Inr lines_of_def)
  qed
qed

lemma resolve_features_upd [simp]:
  "resolve_features (self\<lparr>self_classes := cs\<rparr>) X n = resolve_features self X n"
  by (simp add: resolve_features_def)

lemma canvas0_upd [simp]:
  "canvas0 env (self\<lparr>self_classes := cs, self_features := fs\<rparr>) = canvas0 env self"
  by (simp add: canvas0_def)

lemma color_mapping_upd [simp]:
  "color_mapping env (self\<lparr>self_classes := cs', self_features := fs\<rparr>) cs = color_mapping env self cs"
  by (simp add: color_mapping_def color_values_def)

lemma fit_classes_error:
  "resolve_classes env self y = Inl e \<Longrightarrow> fit env self X y = Inl (e, self)"
  by (simp add: fit_def split: prod.split)

lemma fit_loop_error:
  "resolve_classes env self y = Inr cs \<Longrightarrow> loop_result env self X y cs = Inl (e, c1) \<Longrightarrow>
   fit env self X y = Inl (e, finished self X cs c1)"
  by (cases "shape X") (simp add: fit_def loop_result_def finished_def Let_def)

lemma fit_no_columns:
  "resolve_classes env self y = Inr cs \<Longrightarrow> loop_result env self X y cs = Inr c1 \<Longrightarrow>
   snd (shape X) = 0 \<Longrightarrow>
   fit env self X y =
     Inl (IndexError out_of_range,
          finished self X cs (c1 @ guide_lines self 0 @ ticks self X))"
  by (cases "shape X")
    (simp add: fit_def loop_result_def finished_def ticks_def Let_def add_vlines_eq
      py_index_Nil guide_lines_def)

lemma fit_returns:
  "resolve_classes env self y = Inr cs \<Longrightarrow> loop_result env self X y cs = Inr c1 \<Longrightarrow>
   0 < snd (shape X) \<Longrightarrow>
   fit env self X y =
     Inr (finished self X cs
            (c1 @ guide_lines self (snd (shape X)) @ ticks self X @ [SetXlim 0 (snd (shape X) - 1)]))"
  by (cases "shape X")
    (simp add: fit_def loop_result_def finished_def ticks_def Let_def add_vlines_eq
      py_index_upt_first py_index_upt_last guide_lines_def)

lemma fit_InrD:
  assumes "fit env self X y = Inr self'"
  shows "\<exists>cs c1. resolve_classes env self y = Inr cs \<and> loop_result env self X y cs = Inr c1 \<and>
           0 < snd (shape X) \<and>
           self' = finished self X cs
             (c1 @ guide_lines self (snd (shape X)) @ ticks self X @ [SetXlim 0 (snd (shape X) - 1)])"
proof (cases "resolve_classes env self y")
  case (Inl e)
  with assms show ?thesis by (simp add: fit_classes_error)
next
  case cs: (Inr cs)
  show ?thesis
  proof (cases "loop_result env self X y cs")
    case (Inl ec)
    with assms cs show ?thesis by (cases ec) (simp add: fit_loop_error)
  next
    case c1: (Inr c1)
    show ?thesis
    proof (cases "snd (shape X) = 0")
      case True
      with assms cs c1 show ?thesis by (simp add: fit_no_columns)
    next
      case False
      then have "0 < snd (shape X)" by simp
      from fit_returns [OF cs c1 this] assms cs c1 this show ?thesis by simp
    qed
  qed
qed


lemma state_of_simps [simp]: "state_of (Inl (e, s)) = s" "state_of (Inr s) = s"
  by (simp_all add: state_of_def)

lemma drawn_same [simp]: "drawn env self self = []"
  by (simp add: drawn_def canvas0_def split: option.split)

lemma drawn_finished [simp]: "drawn env self (finished self X cs (canvas0 env self @ c)) = c"
  by (simp add: drawn_def finished_def)

lemma loop_result_prefix:
  "loop_result env self X y cs = Inr c1 \<Longrightarrow>
   c1 = canvas0 env self @
        lines_of cs (color_mapping env self cs) [0..<snd (shape X)] y (enumerate 0 (items X))"
  unfolding loop_result_def by (drule add_instances_InrD) simp

lemma fit_resolved:
  assumes "resolve_classes env self y = Inr cs"
  shows "self_classes (state_of (fit env self X y)) = Some cs"
    and "self_features (state_of (fit env self X y)) = Some (resolve_features self X (snd (shape X)))"
proof -
  let ?goal = "self_classes (state_of (fit env self X y)) = Some cs \<and>
    self_features (state_of (fit env self X y)) = Some (resolve_features self X (snd (shape X)))"
  have ?goal
  proof (cases "loop_result env self X y cs")
    case (Inl ec)
    then show ?thesis using assms by (cases ec) (simp add: fit_loop_error finished_def)
  next
    case c1: (Inr c1)
    show ?thesis
    proof (cases "snd (shape X) = 0")
      case True
      from fit_no_columns [OF assms c1 True] show ?thesis by (simp add: finished_def)
    next
      case False
      then have "0 < snd (shape X)" by simp
      from fit_returns [OF assms c1 this] show ?thesis by (simp add: finished_def)
    qed
  qed
  then show "self_classes (state_of (fit env self X y)) = Some cs"
    and "self_features (state_of (fit env self X y)) = Some (resolve_features self X (snd (shape X)))"
    by simp_all
qed

lemma resolve_classes_cases:
  "resolve_classes env self y =
     (case self_classes self of Some cs \<Rightarrow> Inr cs
      | None \<Rightarrow> (case y of None \<Rightarrow> Inl (TypeError not_iterable)
                  | Some ys \<Rightarrow> Inr (map str_label (set_iter env ys))))"
  by (simp add: resolve_classes_def)

lemma digit_val_digit: "d < 10 \<Longrightarrow> digit_val (digit d) = d"
proof -
  assume "d < 10"
  then have "d \<in> {0, 1, 2, 3, 4, 5, 6, 7, 8, 9}" by auto
  then show ?thesis by (auto simp: digit_val_def digit_def)
qed

lemma nat_of_str_snoc: "nat_of_str (s @ [ch]) = 10 * nat_of_str s + digit_val ch"
  by (simp add: nat_of_str_def)

lemma nat_of_str_str_nat: "nat_of_str (str_nat n) = n"
proof (induction n rule: str_nat.induct)
  case (1 n)
  show ?case
  proof (cases "n < 10")
    case True
    then show ?thesis by (subst str_nat.simps) (simp add: nat_of_str_def digit_val_digit)
  next
    case False
    with "1" have "nat_of_str (str_nat (n div 10)) = n div 10" by simp
    with False show ?thesis
      by (subst str_nat.simps) (simp add: nat_of_str_snoc digit_val_digit)
  qed
qed

lemma py_index_nat: "i < length xs \<Longrightarrow> py_index xs (int i) = Inr (xs ! i)"
  by (simp add: py_index_def)

lemma py_index_nat_InrD: "py_index xs (int i) = Inr a \<Longrightarrow> i < length xs \<and> a = xs ! i"
  by (auto simp: py_index_def split: if_splits)

lemma py_index_in_bounds:
  assumes "- int (length xs) \<le> k" and "k < int (length xs)"
  shows "\<exists>a. py_index xs k = Inr a \<and> a \<in> set xs"
proof (cases "0 \<le> k")
  case True
  with assms have "nat k < length xs" by simp
  with True assms show ?thesis by (simp add: py_index_def)
next
  case False
  with assms have "nat (int (length xs) + k) < length xs" by simp
  with False assms show ?thesis by (simp add: py_index_def)
qed

lemma py_index_out_of_bounds:
  "k < - int (length xs) \<or> int (length xs) \<le> k \<Longrightarrow>
   py_index xs k =
     Inl (IndexError (if - maxsize - 1 \<le> k \<and> k \<le> maxsize then out_of_range else cannot_fit))"
  by (auto simp: py_index_def)

lemma py_index_InrD: "py_index xs k = Inr a \<Longrightarrow> - int (length xs) \<le> k \<and> k < int (length xs)"
  by (auto simp: py_index_def split: if_splits)

lemma map_of_rev_SomeD:
  "map_of (rev xs) k = Some v \<Longrightarrow>
   \<exists>p < length xs. xs ! p = (k, v) \<and> (\<forall>q. p < q \<and> q < length xs \<longrightarrow> fst (xs ! q) \<noteq> k)"
proof (induction xs)
  case Nil
  then show ?case by simp
next
  case (Cons x xs)
  show ?case
  proof (cases "map_of (rev xs) k")
    case None
    then have notin: "k \<notin> fst ` set xs" by (simp add: map_of_eq_None_iff)
    from Cons.prems None have "x = (k, v)"
      by (cases x) (auto simp: map_add_def split: if_splits)
    moreover have "\<forall>q. 0 < q \<and> q < length (x # xs) \<longrightarrow> fst ((x # xs) ! q) \<noteq> k"
    proof (intro allI impI)
      fix q assume q: "0 < q \<and> q < length (x # xs)"
      then obtain q' where q': "q = Suc q'" by (cases q) auto
      with q have "xs ! q' \<in> set xs" by simp
      with notin q' show "fst ((x # xs) ! q) \<noteq> k" by force
    qed
    ultimately show ?thesis by (intro exI [of _ 0]) simp
  next
    case (Some w)
    with Cons.prems have "map_of (rev xs) k = Some v" by (simp add: map_add_def)
    from Cons.IH [OF this] obtain p where p: "p < length xs" "xs ! p = (k, v)"
      "\<forall>q. p < q \<and> q < length xs \<longrightarrow> fst (xs ! q) \<noteq> k" by blast
    have "\<forall>q. Suc p < q \<and> q < length (x # xs) \<longrightarrow> fst ((x # xs) ! q) \<noteq> k"
    proof (intro allI impI)
      fix q assume q: "Suc p < q \<and> q < length (x # xs)"
      then obtain q' where q': "q = Suc q'" by (cases q) auto
      with q p(3) show "fst ((x # xs) ! q) \<noteq> k" by simp
    qed
    with p show ?thesis by (intro exI [of _ "Suc p"]) simp
  qed
qed

lemma py_dict_zip_SomeD:
  assumes "py_dict (zip ks vs) k = Some v"
  shows "\<exists>p. p < length ks \<and> p < length vs \<and> ks ! p = k \<and> vs ! p = v \<and>
             (\<forall>q. p < q \<and> q < length ks \<and> q < length vs \<longrightarrow> ks ! q \<noteq> k)"
proof -
  from assms have "map_of (rev (zip ks vs)) k = Some v" by (simp add: py_dict_def)
  from map_of_rev_SomeD [OF this] obtain p where p: "p < length (zip ks vs)"
    "zip ks vs ! p = (k, v)"
    "\<forall>q. p < q \<and> q < length (zip ks vs) \<longrightarrow> fst (zip ks vs ! q) \<noteq> k" by blast
  from p(1) have lt: "p < length ks" "p < length vs" by simp_all
  with p(2) have "ks ! p = k" "vs ! p = v" by simp_all
  moreover have "\<forall>q. p < q \<and> q < length ks \<and> q < length vs \<longrightarrow> ks ! q \<noteq> k"
  proof (intro allI impI)
    fix q assume q: "p < q \<and> q < length ks \<and> q < length vs"
    with p(3) have "fst (zip ks vs ! q) \<noteq> k" by simp
    with q show "ks ! q \<noteq> k" by simp
  qed
  ultimately show ?thesis using lt by blast
qed

lemma dom_py_dict_zip: "length vs = length ks \<Longrightarrow> dom (py_dict (zip ks vs)) = set ks"
  by (simp add: py_dict_def dom_map_of_conv_image_fst flip: set_map)

lemma dom_color_mapping:
  "length (color_values env self cs) = length cs \<Longrightarrow> dom (color_mapping env self cs) = set cs"
  by (simp add: color_mapping_def dom_py_dict_zip)

lemma instance_line_InrD:
  assumes "instance_line cs colors x y idx row = Inr l"
  shows "\<exists>ys k name col. y = Some ys \<and> idx < length ys \<and> ys ! idx = LInt k \<and>
           py_index cs k = Inr name \<and> colors name = Some col \<and> l = Plot x row col name"
proof -
  from assms obtain ys where ys: "y = Some ys"
    by (cases y) (auto simp: instance_line_def)
  from assms ys obtain lab where "py_index ys (int idx) = Inr lab"
    by (cases "py_index ys (int idx)") (auto simp: instance_line_def)
  then have idx: "idx < length ys" by (simp add: py_index_nat_InrD)
  from assms ys idx obtain k where k: "ys ! idx = LInt k"
    by (cases "ys ! idx") (auto simp: instance_line_def py_index_nat)
  from assms ys idx k obtain name where name: "py_index cs k = Inr name"
    by (cases "py_index cs k") (auto simp: instance_line_def py_index_nat)
  from assms ys idx k name obtain col where col: "colors name = Some col"
    by (cases "colors name") (auto simp: instance_line_def py_index_nat)
  from assms ys idx k name col have "l = Plot x row col name"
    by (auto simp: instance_line_def py_index_nat)
  with ys idx k name col show ?thesis by blast
qed

lemma instance_line_valid:
  assumes "idx < length ys" and "ys ! idx = LInt k"
    and "- int (length cs) \<le> k" and "k < int (length cs)" and "set cs \<subseteq> dom colors"
  shows "\<exists>col name. instance_line cs colors x (Some ys) idx row = Inr (Plot x row col name)"
proof -
  from py_index_in_bounds [OF assms(3,4)] obtain name
    where name: "py_index cs k = Inr name" "name \<in> set cs" by blast
  with assms(5) obtain col where "colors name = Some col" by blast
  with assms(1,2) name(1) show ?thesis
    by (simp add: instance_line_def py_index_nat)
qed

lemma instance_line_out_of_bounds:
  assumes "idx < length ys" and "ys ! idx = LInt k"
    and "k < - int (length cs) \<or> int (length cs) \<le> k"
  shows "instance_line cs colors x (Some ys) idx row =
           Inl (IndexError (if - maxsize - 1 \<le> k \<and> k \<le> maxsize then out_of_range else cannot_fit))"
  using assms(1,2) py_index_out_of_bounds [OF assms(3)]
  by (simp add: instance_line_def py_index_nat)

lemma projr_instance_line:
  assumes "\<not> isl (instance_line cs colors x y idx row)"
  shows "is_Plot (projr (instance_line cs colors x y idx row)) \<and>
         plot_row (projr (instance_line cs colors x y idx row)) = row"
proof -
  from assms obtain l where l: "instance_line cs colors x y idx row = Inr l"
    by (cases "instance_line cs colors x y idx row") auto
  from instance_line_InrD [OF l] l show ?thesis by auto
qed

lemma length_lines_of [simp]: "length (lines_of cs colors x y ps) = length ps"
  by (simp add: lines_of_def)

lemma lines_of_nth:
  "i < length rows \<Longrightarrow>
   lines_of cs colors x y (enumerate n rows) ! i =
     projr (instance_line cs colors x y (n + i) (rows ! i))"
  by (simp add: lines_of_def nth_enumerate_eq)

lemma lines_of_plots:
  assumes "\<forall>p \<in> set ps. \<not> isl (instance_line cs colors x y (fst p) (snd p))"
  shows "filter is_Plot (lines_of cs colors x y ps) = lines_of cs colors x y ps"
    and "map plot_row (lines_of cs colors x y ps) = map snd ps"
    and "filter (\<lambda>l. \<not> is_Plot l) (lines_of cs colors x y ps) = []"
  using assms by (induction ps) (auto simp: lines_of_def projr_instance_line)

lemma enumerate_append:
  "enumerate n (xs @ ys) = enumerate n xs @ enumerate (n + length xs) ys"
  by (induction xs arbitrary: n) simp_all

lemma guide_lines_filters [simp]:
  "filter is_Plot (guide_lines self F) = []"
  "filter is_SetXticks (guide_lines self F) = []"
  "filter is_SetXticklabels (guide_lines self F) = []"
  "filter is_Axvline (guide_lines self F) = guide_lines self F"
  by (simp_all add: guide_lines_def)

lemma lines_of_only_plots:
  assumes "\<forall>p \<in> set ps. \<not> isl (instance_line cs colors x y (fst p) (snd p))"
  shows "\<forall>l \<in> set (lines_of cs colors x y ps). is_Plot l"
  using assms by (auto simp: lines_of_def projr_instance_line)

lemma only_plots_filters:
  assumes "\<forall>l \<in> set ls. is_Plot l"
  shows "filter is_Plot ls = ls" "filter is_SetXticks ls = []"
    "filter is_SetXticklabels ls = []" "filter is_Axvline ls = []"
  using assms by (induction ls) (auto simp: draw_op.disc split: draw_op.splits)

lemma fit_InrD_lines:
  assumes "fit env self X y = Inr self'"
  shows "\<exists>cs. resolve_classes env self y = Inr cs \<and> 0 < snd (shape X) \<and>
           (\<forall>p \<in> set (enumerate 0 (items X)).
              \<not> isl (instance_line cs (color_mapping env self cs) [0..<snd (shape X)] y (fst p) (snd p))) \<and>
           self' = finished self X cs
             (canvas0 env self @
              lines_of cs (color_mapping env self cs) [0..<snd (shape X)] y (enumerate 0 (items X)) @
              guide_lines self (snd (shape X)) @ ticks self X @ [SetXlim 0 (snd (shape X) - 1)])"
proof -
  from fit_InrD [OF assms] obtain cs c1 where
    cs: "resolve_classes env self y = Inr cs" and
    c1: "loop_result env self X y cs = Inr c1" and
    F: "0 < snd (shape X)" and
    self': "self' = finished self X cs
       (c1 @ guide_lines self (snd (shape X)) @ ticks self X @ [SetXlim 0 (snd (shape X) - 1)])"
    by blast
  from c1 have "c1 = canvas0 env self @
      lines_of cs (color_mapping env self cs) [0..<snd (shape X)] y (enumerate 0 (items X))"
    and "\<forall>p \<in> set (enumerate 0 (items X)).
      \<not> isl (instance_line cs (color_mapping env self cs) [0..<snd (shape X)] y (fst p) (snd p))"
    unfolding loop_result_def by (auto dest: add_instances_InrD)
  with cs F self' show ?thesis by simp
qed

lemma valid_rows_ok:
  assumes "length rows \<le> length ys"
    and "\<forall>i < length rows. \<exists>k. ys ! i = LInt k \<and> - int (length cs) \<le> k \<and> k < int (length cs)"
    and "set cs \<subseteq> dom colors"
  shows "\<forall>p \<in> set (enumerate 0 rows). \<not> isl (instance_line cs colors x (Some ys) (fst p) (snd p))"
proof
  fix p assume "p \<in> set (enumerate 0 rows)"
  then have i: "fst p < length rows" by (auto simp: in_set_enumerate_eq)
  with assms(2) obtain k where k: "ys ! fst p = LInt k" "- int (length cs) \<le> k" "k < int (length cs)"
    by blast
  from i assms(1) have "fst p < length ys" by simp
  from instance_line_valid [OF this k assms(3)]
  show "\<not> isl (instance_line cs colors x (Some ys) (fst p) (snd p))" by (metis sum.disc(2))
qed

lemma loop_valid:
  assumes "length (items X) \<le> length ys"
    and "\<forall>i < length (items X). \<exists>k. ys ! i = LInt k \<and> - int (length cs) \<le> k \<and> k < int (length cs)"
    and "length (color_values env self cs) = length cs"
  shows "loop_result env self X (Some ys) cs =
           Inr (canvas0 env self @
                lines_of cs (color_mapping env self cs) [0..<snd (shape X)] (Some ys)
                  (enumerate 0 (items X)))"
    and "\<forall>p \<in> set (enumerate 0 (items X)).
           \<not> isl (instance_line cs (color_mapping env self cs) [0..<snd (shape X)] (Some ys) (fst p) (snd p))"
proof -
  from assms(3) have "set cs \<subseteq> dom (color_mapping env self cs)"
    by (simp add: dom_color_mapping)
  from valid_rows_ok [OF assms(1,2) this]
  show ok: "\<forall>p \<in> set (enumerate 0 (items X)).
           \<not> isl (instance_line cs (color_mapping env self cs) [0..<snd (shape X)] (Some ys) (fst p) (snd p))" .
  from add_instances_all_ok [OF ok]
  show "loop_result env self X (Some ys) cs =
           Inr (canvas0 env self @
                lines_of cs (color_mapping env self cs) [0..<snd (shape X)] (Some ys)
                  (enumerate 0 (items X)))"
    by (simp add: loop_result_def)
qed

lemma ticks_filters [simp]:
  "filter is_Plot (ticks self X) = []"
  "filter is_Axvline (ticks self X) = []"
  "filter is_SetXticks (ticks self X) = [SetXticks [0..<snd (shape X)]]"
  "filter is_SetXticklabels (ticks self X) = [SetXticklabels (resolve_features self X (snd (shape X)))]"
  by (simp_all add: ticks_def)

lemma upt_3: "[0..<3] = [0, 1, 2]"
  by (simp add: upt_rec)

lemma ex_run: "fit ex_env ex_new ex_X (Some ex_y) = Inr ex_done"
  by code_simp

lemma ex_plain_run:
  "fit ex_env (init None None None None None False None) ex_X (Some ex_y) =
     Inr (projr (fit ex_env (init None None None None None False None) ex_X (Some ex_y)))"
  by code_simp

section \<open>The constructor\<close>

lemma init_vlines_kwds_nonempty: "vlines_kwds (init a f c co cm vl kw) \<noteq> []"
  by (simp add: init_def default_vlines_kwds_def split: option.split)

text \<open>
  C10: an explicitly empty style dictionary for \<^verbatim>\<open>vlines_kwds\<close> is replaced by the
  default style, linewidth 1 and color black, as the absent value is; no argument makes
  the constructor store an empty style.
\<close>

theorem init_empty_vlines_kwds_default:
  "vlines_kwds (init a f c co cm vl (Some [])) = [(''linewidth'', KInt 1), (''color'', KStr ''black'')]
   \<and> vlines_kwds (init a f c co cm vl (Some [])) = vlines_kwds (init a f c co cm vl None)
   \<and> (\<forall>kw. vlines_kwds (init a f c co cm vl kw) \<noteq> [])"
  by (simp add: init_def default_vlines_kwds_def split: option.split)

section \<open>Resolving classes and features\<close>

text \<open>
  C4: without a label vector and without a class list, \<open>fit\<close> aborts with an error, the
  \<^verbatim>\<open>TypeError\<close> of \<^verbatim>\<open>set(None)\<close>; the visualizer is unchanged and nothing is drawn.
\<close>

theorem fit_without_labels_and_classes_aborts:
  "self_classes v = None \<Longrightarrow>
   fit env v X None = Inl (TypeError not_iterable, v) \<and>
   drawn env v (state_of (fit env v X None)) = []"
  by (simp add: fit_classes_error resolve_classes_def)

theorem fit_without_labels_and_classes_aborts_witness:
  "self_classes ex_new = None \<and>
   fit ex_env ex_new ex_X None = Inl (TypeError not_iterable, ex_new) \<and>
   drawn ex_env ex_new (state_of (fit ex_env ex_new ex_X None)) = []"
proof -
  have h: "self_classes ex_new = None" by (simp add: ex_new_def init_def)
  from fit_without_labels_and_classes_aborts [OF h, of ex_env ex_X] h show ?thesis by simp
qed

text \<open>
  C3: when no feature names are set and the class resolution does not abort, the feature
  list after \<open>fit\<close> is the column labels of the matrix when it has some, and else
  the decimal numerals of the column indices \<open>0, ..., F - 1\<close>.
\<close>

theorem fit_derives_feature_names:
  assumes "self_features v = None" and "self_classes v \<noteq> None \<or> y \<noteq> None"
  shows "self_features (state_of (fit env v X y)) =
           Some (case columns X of
                   Some cols \<Rightarrow> cols
                 | None \<Rightarrow> map str_nat [0..<snd (shape X)])"
proof -
  from assms(2) obtain cs where "resolve_classes env v y = Inr cs"
    by (cases "self_classes v"; cases y) (auto simp: resolve_classes_def)
  from fit_resolved(2) [OF this] assms(1) show ?thesis
    by (simp add: resolve_features_def)
qed

theorem fit_derives_feature_names_witness:
  "self_features (state_of (fit ex_env ex_new ex_frame (Some ex_y))) = Some [''a'', ''b'', ''c''] \<and>
   self_features (state_of (fit ex_env ex_new ex_X (Some ex_y))) = Some [''0'', ''1'', ''2'']"
proof -
  have f: "self_features ex_new = None" by (simp add: ex_new_def init_def)
  have c: "self_classes ex_new \<noteq> None \<or> Some ex_y \<noteq> None" by simp
  have u: "[0..<3] = [0, 1, 2]" by (simp add: upt_rec)
  from fit_derives_feature_names [OF f c, of ex_env ex_frame]
    fit_derives_feature_names [OF f c, of ex_env ex_X]
  show ?thesis by (simp add: ex_frame_def ex_X_def u digit_def str_nat.simps)
qed

text \<open>
  C9: once the class list and the feature list of the visualizer are set, \<open>fit\<close> leaves
  both as they are, whatever it is given and whether it returns or raises; and after a
  \<open>fit\<close> that has returned both lists are set, so that a second \<open>fit\<close> on the same
  input yields the same two lists.
\<close>

theorem fit_keeps_resolved_lists:
  "(self_classes v = Some cs \<and> self_features v = Some fs \<longrightarrow>
      self_classes (state_of (fit env v X y)) = Some cs \<and>
      self_features (state_of (fit env v X y)) = Some fs) \<and>
   (fit env v X y = Inr v1 \<longrightarrow>
      self_classes v1 \<noteq> None \<and> self_features v1 \<noteq> None \<and>
      self_classes (state_of (fit env v1 X y)) = self_classes v1 \<and>
      self_features (state_of (fit env v1 X y)) = self_features v1)"
proof -
  have cached: "self_classes (state_of (fit env w X y)) = Some cs' \<and>
      self_features (state_of (fit env w X y)) = Some fs'"
    if "self_classes w = Some cs'" and "self_features w = Some fs'" for w :: "'a pcoords" and cs' fs'
  proof -
    from that(1) have "resolve_classes env w y = Inr cs'" by (simp add: resolve_classes_def)
    from fit_resolved [OF this, of X] that(2) show ?thesis by (simp add: resolve_features_def)
  qed
  have twice: "self_classes v1 \<noteq> None \<and> self_features v1 \<noteq> None \<and>
      self_classes (state_of (fit env v1 X y)) = self_classes v1 \<and>
      self_features (state_of (fit env v1 X y)) = self_features v1"
    if "fit env v X y = Inr v1"
  proof -
    from fit_InrD [OF that] obtain cs' c where "v1 = finished v X cs' c" by blast
    then have "self_classes v1 = Some cs'"
      and "self_features v1 = Some (resolve_features v X (snd (shape X)))"
      by (simp_all add: finished_def)
    with cached [OF this] show ?thesis by simp
  qed
  from cached twice show ?thesis by blast
qed

theorem fit_keeps_resolved_lists_witness:
  "self_classes (state_of (fit ex_env ex_done ex_X (Some ex_y))) = Some [''0'', ''1''] \<and>
   self_features (state_of (fit ex_env ex_done ex_X (Some ex_y))) = Some [''0'', ''1'', ''2''] \<and>
   self_classes (state_of (fit ex_env ex_done ex_X (Some ex_y))) = self_classes ex_done \<and>
   self_features (state_of (fit ex_env ex_done ex_X (Some ex_y))) = self_features ex_done"
proof -
  have c: "self_classes ex_done = Some [''0'', ''1'']" by (simp add: ex_done_def)
  have f: "self_features ex_done = Some [''0'', ''1'', ''2'']" by (simp add: ex_done_def)
  from fit_keeps_resolved_lists [of ex_done "[''0'', ''1'']" "[''0'', ''1'', ''2'']" ex_env ex_X "Some ex_y"]
    fit_keeps_resolved_lists [of ex_new _ _ ex_env ex_X "Some ex_y" ex_done] ex_run c f
  show ?thesis by simp
qed

section \<open>Drawing\<close>



text \<open>
  C2: when \<open>fit\<close> returns, the call of \<^verbatim>\<open>plot\<close> for instance \<open>i\<close> is the \<open>i\<close>-th call it
  has made: the label \<open>y[i]\<close> is an integer used as a Python index into the class list,
  the class name found there is looked up in the dictionary built from
  \<^verbatim>\<open>zip(classes_, color_values)\<close>, where it has the color at the last position of that name,
  and the line goes through the axis positions at the values of row \<open>i\<close>, with that color
  and the class name as its label.
\<close>

theorem fit_line_of_instance:
  assumes "fit env v X y = Inr v'" and "i < length (items X)"
  shows "\<exists>ys k cs name col p.
           y = Some ys \<and> i < length ys \<and> ys ! i = LInt k \<and>
           self_classes v' = Some cs \<and> py_index cs k = Inr name \<and>
           color_mapping env v cs = py_dict (zip cs (color_values env v cs)) \<and>
           color_mapping env v cs name = Some col \<and>
           p < length cs \<and> p < length (color_values env v cs) \<and>
           cs ! p = name \<and> color_values env v cs ! p = col \<and>
           (\<forall>q. p < q \<and> q < length cs \<and> q < length (color_values env v cs) \<longrightarrow> cs ! q \<noteq> name) \<and>
           drawn env v v' ! i = Plot [0..<snd (shape X)] (items X ! i) col name"
proof -
  from fit_InrD_lines [OF assms(1)] obtain cs where
    cs: "resolve_classes env v y = Inr cs" and
    ok: "\<forall>p \<in> set (enumerate 0 (items X)).
           \<not> isl (instance_line cs (color_mapping env v cs) [0..<snd (shape X)] y (fst p) (snd p))" and
    v': "v' = finished v X cs
             (canvas0 env v @
              lines_of cs (color_mapping env v cs) [0..<snd (shape X)] y (enumerate 0 (items X)) @
              guide_lines v (snd (shape X)) @ ticks v X @ [SetXlim 0 (snd (shape X) - 1)])"
    by blast
  let ?line = "instance_line cs (color_mapping env v cs) [0..<snd (shape X)] y i (items X ! i)"
  from assms(2) have "(i, items X ! i) \<in> set (enumerate 0 (items X))"
    by (simp add: in_set_enumerate_eq)
  with ok have "\<not> isl ?line" by force
  then obtain l where l: "?line = Inr l" by (cases ?line) auto
  from instance_line_InrD [OF l] obtain ys k name col where
    inst: "y = Some ys" "i < length ys" "ys ! i = LInt k" "py_index cs k = Inr name"
      "color_mapping env v cs name = Some col"
      "l = Plot [0..<snd (shape X)] (items X ! i) col name" by blast
  from inst(5) have "py_dict (zip cs (color_values env v cs)) name = Some col"
    by (simp add: color_mapping_def)
  from py_dict_zip_SomeD [OF this] obtain p where
    p: "p < length cs" "p < length (color_values env v cs)" "cs ! p = name"
      "color_values env v cs ! p = col"
      "\<forall>q. p < q \<and> q < length cs \<and> q < length (color_values env v cs) \<longrightarrow> cs ! q \<noteq> name"
    by blast
  have "drawn env v v' ! i = l"
    using assms(2) l by (simp add: v' nth_append lines_of_nth)
  moreover have "self_classes v' = Some cs" by (simp add: v' finished_def)
  moreover have "color_mapping env v cs = py_dict (zip cs (color_values env v cs))"
    by (simp add: color_mapping_def)
  ultimately show ?thesis using inst p by blast
qed

theorem fit_line_of_instance_witness:
  "drawn ex_env ex_new ex_done ! 1 = Plot [0, 1, 2] [4, 5, 6] ''C1'' ''1'' \<and>
   py_index [''0'', ''1''] 1 = Inr ''1'' \<and>
   color_mapping ex_env ex_new [''0'', ''1''] ''1'' = Some ''C1''"
proof -
  have h: "1 < length (items ex_X)" by (simp add: ex_X_def)
  from fit_line_of_instance [OF ex_run h] obtain ys k cs name col where
    f: "Some ex_y = Some ys" "ys ! 1 = LInt k" "self_classes ex_done = Some cs"
      "py_index cs k = Inr name" "color_mapping ex_env ex_new cs name = Some col"
      "drawn ex_env ex_new ex_done ! 1 = Plot [0..<snd (shape ex_X)] (items ex_X ! 1) col name"
    by blast
  from f(1,2) have k: "k = 1" by (auto simp: ex_y_def)
  from f(3) have cs: "cs = [''0'', ''1'']" by (simp add: ex_done_def)
  have idx: "py_index [''0'', ''1''] 1 = Inr ''1''" by (simp add: py_index_def)
  with f(4) k cs have name: "name = ''1''" by simp
  have "color_mapping ex_env ex_new [''0'', ''1''] ''1'' = Some ''C1''" by code_simp
  with f(5) cs name have col: "col = ''C1''" by simp
  from f(6) name col idx \<open>color_mapping ex_env ex_new [''0'', ''1''] ''1'' = Some ''C1''\<close>
  show ?thesis by (simp add: ex_X_def upt_3)
qed

text \<open>
  C7: when \<open>fit\<close> returns on a matrix with \<open>F\<close> columns, its last three calls set the
  tick positions to \<open>0, ..., F - 1\<close>, the tick labels to the feature names and the
  horizontal limits to \<open>0\<close> and \<open>F - 1\<close>; every earlier call draws a line or a guide
  line, and \<open>F\<close> is at least one.
\<close>

theorem fit_ticks_and_limits:
  assumes "fit env v X y = Inr v'" and "shape X = (N, F)"
  shows "0 < F \<and>
         (\<exists>pre fs. drawn env v v' = pre @ [SetXticks [0..<F], SetXticklabels fs, SetXlim 0 (F - 1)] \<and>
            self_features v' = Some fs \<and>
            (\<forall>c \<in> set pre. is_Plot c \<or> is_Axvline c))"
proof -
  from fit_InrD_lines [OF assms(1)] obtain cs where
    F: "0 < snd (shape X)" and
    ok: "\<forall>p \<in> set (enumerate 0 (items X)).
           \<not> isl (instance_line cs (color_mapping env v cs) [0..<snd (shape X)] y (fst p) (snd p))" and
    v': "v' = finished v X cs
             (canvas0 env v @
              lines_of cs (color_mapping env v cs) [0..<snd (shape X)] y (enumerate 0 (items X)) @
              guide_lines v (snd (shape X)) @ ticks v X @ [SetXlim 0 (snd (shape X) - 1)])"
    by blast
  let ?lines = "lines_of cs (color_mapping env v cs) [0..<F] y (enumerate 0 (items X))"
  have sF: "snd (shape X) = F" using assms(2) by simp
  have "drawn env v v' = (?lines @ guide_lines v F) @
      [SetXticks [0..<F], SetXticklabels (resolve_features v X F), SetXlim 0 (F - 1)]"
    by (simp add: v' sF ticks_def)
  moreover have "self_features v' = Some (resolve_features v X F)"
    by (simp add: v' sF finished_def)
  moreover have "\<forall>c \<in> set (?lines @ guide_lines v F). is_Plot c \<or> is_Axvline c"
    using lines_of_only_plots [OF ok] by (auto simp: sF guide_lines_def)
  ultimately show ?thesis using F sF by blast
qed

theorem fit_ticks_and_limits_witness:
  "\<exists>pre fs. drawn ex_env ex_new ex_done =
       pre @ [SetXticks [0, 1, 2], SetXticklabels fs, SetXlim 0 2] \<and>
     self_features ex_done = Some fs \<and> (\<forall>c \<in> set pre. is_Plot c \<or> is_Axvline c)"
proof -
  have h: "shape ex_X = (2, 3)" by (simp add: ex_X_def)
  from fit_ticks_and_limits [OF ex_run h] show ?thesis by (simp add: upt_3)
qed

text \<open>
  C8: when \<open>fit\<close> returns, a visualizer built with the flag \<^verbatim>\<open>vlines\<close> true has drawn one
  guide line at each of the positions \<open>0, ..., F - 1\<close>, with the style it was built
  with, and one built with the flag false has drawn none; the style is linewidth 1 and
  color black when none is given, and the flag is true by default.
\<close>

theorem fit_guide_lines:
  assumes "fit env (init a f c co cm vl kw) X y = Inr v'" and "shape X = (N, F)"
  shows "filter is_Axvline (drawn env (init a f c co cm vl kw) v') =
           (if vl then map (\<lambda>i. Axvline i (vlines_kwds (init a f c co cm vl kw :: 'r pcoords))) [0..<F]
            else []) \<and>
         vlines_kwds (init a f c co cm vl None :: 'r pcoords) =
           [(''linewidth'', KInt 1), (''color'', KStr ''black'')] \<and>
         show_vlines (init_defaults :: 'r pcoords)"
proof -
  let ?v = "init a f c co cm vl kw :: 'r pcoords"
  from fit_InrD_lines [OF assms(1)] obtain cs where
    ok: "\<forall>p \<in> set (enumerate 0 (items X)).
           \<not> isl (instance_line cs (color_mapping env ?v cs) [0..<snd (shape X)] y (fst p) (snd p))" and
    v': "v' = finished ?v X cs
             (canvas0 env ?v @
              lines_of cs (color_mapping env ?v cs) [0..<snd (shape X)] y (enumerate 0 (items X)) @
              guide_lines ?v (snd (shape X)) @ ticks ?v X @ [SetXlim 0 (snd (shape X) - 1)])"
    by blast
  have sF: "snd (shape X) = F" using assms(2) by simp
  note fl = only_plots_filters [OF lines_of_only_plots [OF ok]]
  have "filter is_Axvline (drawn env ?v v') = guide_lines ?v F"
    using fl by (simp add: v' sF)
  moreover have "show_vlines ?v = vl" by (simp add: init_def)
  ultimately show ?thesis
    by (simp add: guide_lines_def init_defaults_def) (simp add: init_def default_vlines_kwds_def)
qed

theorem fit_guide_lines_witness:
  "filter is_Axvline (drawn ex_env ex_new ex_done) =
     [Axvline 0 [(''linewidth'', KInt 1), (''color'', KStr ''black'')],
      Axvline 1 [(''linewidth'', KInt 1), (''color'', KStr ''black'')],
      Axvline 2 [(''linewidth'', KInt 1), (''color'', KStr ''black'')]] \<and>
   filter is_Axvline
     (drawn ex_env (init None None None None None False None)
        (projr (fit ex_env (init None None None None None False None) ex_X (Some ex_y)))) = []"
proof -
  have h: "shape ex_X = (2, 3)" by (simp add: ex_X_def)
  have r: "fit ex_env (init None None None None None True None) ex_X (Some ex_y) = Inr ex_done"
    using ex_run by (simp add: ex_new_def)
  from fit_guide_lines [OF r h] fit_guide_lines [OF ex_plain_run h]
  show ?thesis by (simp add: ex_new_def upt_3)
qed

section \<open>What is not checked\<close>

text \<open>
  C5: \<open>fit\<close> does not compare the length of an explicit feature list with
  the number of columns. Whatever the length of the list, for valid labels and at least
  one column \<open>fit\<close> returns after drawing all \<open>N\<close> lines, sets the \<open>F\<close> tick positions,
  hands the list as it is to \<^verbatim>\<open>set_xticklabels\<close> and keeps it as the feature list.
\<close>

theorem fit_explicit_features_unchecked:
  assumes "self_features v = Some fs"
    and "shape X = (N, F)" and "0 < F" and "length (items X) = N" and "length ys = N"
    and "resolve_classes env v (Some ys) = Inr cs"
    and "\<forall>l \<in> set ys. \<exists>k. l = LInt k \<and> - int (length cs) \<le> k \<and> k < int (length cs)"
    and "length (color_values env v cs) = length cs"
  shows "\<exists>v'. fit env v X (Some ys) = Inr v' \<and> self_features v' = Some fs \<and>
           length (filter is_Plot (drawn env v v')) = N \<and>
           filter is_SetXticks (drawn env v v') = [SetXticks [0..<F]] \<and>
           filter is_SetXticklabels (drawn env v v') = [SetXticklabels fs]"
proof -
  let ?lines = "lines_of cs (color_mapping env v cs) [0..<snd (shape X)] (Some ys) (enumerate 0 (items X))"
  have F: "snd (shape X) = F" using assms(2) by simp
  have le: "length (items X) \<le> length ys" using assms(4,5) by simp
  have lab: "\<forall>i < length (items X). \<exists>k. ys ! i = LInt k \<and> - int (length cs) \<le> k \<and> k < int (length cs)"
    using assms(4,5,7) by simp
  note loop = loop_valid [OF le lab assms(8)]
  note fl = only_plots_filters [OF lines_of_only_plots [OF loop(2)]]
  from F assms(3) have "0 < snd (shape X)" by simp
  from fit_returns [OF assms(6) loop(1) this]
  show ?thesis using F fl assms(1,4) by (simp add: finished_def resolve_features_def drawn_def)
qed

theorem fit_explicit_features_unchecked_witness:
  "length [''a'', ''b''] \<noteq> snd (shape ex_X) \<and>
   (\<exists>v'. fit ex_env ex_named ex_X (Some ex_y) = Inr v' \<and> self_features v' = Some [''a'', ''b''] \<and>
      length (filter is_Plot (drawn ex_env ex_named v')) = 2 \<and>
      filter is_SetXticks (drawn ex_env ex_named v') = [SetXticks [0, 1, 2]] \<and>
      filter is_SetXticklabels (drawn ex_env ex_named v') = [SetXticklabels [''a'', ''b'']])"
proof -
  have h1: "self_features ex_named = Some [''a'', ''b'']" by (simp add: ex_named_def init_def)
  have h2: "shape ex_X = (2, 3)" by (simp add: ex_X_def)
  have h3: "0 < (3::nat)" by simp
  have h4: "length (items ex_X) = 2" by (simp add: ex_X_def)
  have h5: "length ex_y = 2" by (simp add: ex_y_def)
  have h6: "resolve_classes ex_env ex_named (Some ex_y) = Inr [''x'', ''y'']"
    by (simp add: resolve_classes_def ex_named_def init_def)
  have h7: "\<forall>l \<in> set ex_y. \<exists>k. l = LInt k \<and> - int (length [''x'', ''y'']) \<le> k \<and>
      k < int (length [''x'', ''y''])" by (simp add: ex_y_def)
  have h8: "length (color_values ex_env ex_named [''x'', ''y'']) = length [''x'', ''y'']"
    by (simp add: color_values_def ex_env_def)
  from fit_explicit_features_unchecked [OF h1 h2 h3 h4 h5 h6 h7 h8]
  show ?thesis by (simp add: ex_X_def upt_3)
qed

text \<open>
  A matrix with three columns and a feature list of two names: \<open>fit\<close> returns, with both
  lines drawn.
\<close>

theorem fit_feature_length_counterexample:
  "length [''a'', ''b''] \<noteq> snd (shape ex_X) \<and>
   fit ex_env ex_named ex_X (Some ex_y) =
     Inr \<lparr> ax = Some [Plot [0, 1, 2] [1, 2, 3] ''C0'' ''x'',
                      Plot [0, 1, 2] [4, 5, 6] ''C1'' ''y'',
                      Axvline 0 [(''linewidth'', KInt 1), (''color'', KStr ''black'')],
                      Axvline 1 [(''linewidth'', KInt 1), (''color'', KStr ''black'')],
                      Axvline 2 [(''linewidth'', KInt 1), (''color'', KStr ''black'')],
                      SetXticks [0, 1, 2],
                      SetXticklabels [''a'', ''b''],
                      SetXlim 0 2],
           self_features = Some [''a'', ''b''],
           self_classes = Some [''x'', ''y''],
           color = None,
           colormap = None,
           show_vlines = True,
           vlines_kwds = [(''linewidth'', KInt 1), (''color'', KStr ''black'')] \<rparr>"
  by code_simp

text \<open>
  C6: when the label of instance \<open>i\<close> is an integer outside the bounds of the class list
  and the instances before \<open>i\<close> have labels within them, \<open>fit\<close> raises the
  \<^verbatim>\<open>IndexError\<close> of the list access. Its message is \<^verbatim>\<open>list index out of range\<close> for a
  label that fits the machine word, and else that of the failed conversion to an index;
  neither names \<open>i\<close>. The lines of the \<open>i\<close> instances before it have been drawn, and
  nothing else.
\<close>

theorem fit_label_out_of_bounds:
  assumes "i < length (items X)" and "i < length ys"
    and "resolve_classes env v (Some ys) = Inr cs"
    and "ys ! i = LInt k" and "k < - int (length cs) \<or> int (length cs) \<le> k"
    and "\<forall>j < i. \<exists>k'. ys ! j = LInt k' \<and> - int (length cs) \<le> k' \<and> k' < int (length cs)"
    and "length (color_values env v cs) = length cs"
  shows "\<exists>s. fit env v X (Some ys) =
               Inl (IndexError (if - (2 ^ 63) \<le> k \<and> k < 2 ^ 63
                                then ''list index out of range'' else cannot_fit), s) \<and>
           length (drawn env v s) = i \<and> (\<forall>c \<in> set (drawn env v s). is_Plot c) \<and>
           map plot_row (drawn env v s) = take i (items X)"
proof -
  let ?colors = "color_mapping env v cs"
  let ?x = "[0..<snd (shape X)]"
  let ?pre = "enumerate 0 (take i (items X))"
  let ?post = "enumerate (Suc i) (drop (Suc i) (items X))"
  let ?msg = "if - maxsize - 1 \<le> k \<and> k \<le> maxsize then out_of_range else cannot_fit"
  have split: "enumerate 0 (items X) = ?pre @ (i, items X ! i) # ?post"
  proof -
    have "items X = take i (items X) @ items X ! i # drop (Suc i) (items X)"
      using assms(1) by (simp add: id_take_nth_drop)
    then have "enumerate 0 (items X) =
        enumerate 0 (take i (items X) @ items X ! i # drop (Suc i) (items X))" by simp
    also have "\<dots> = ?pre @ (i, items X ! i) # ?post"
      using assms(1) by (simp add: enumerate_append min_def)
    finally show ?thesis .
  qed
  from assms(7) have dom: "set cs \<subseteq> dom ?colors" by (simp add: dom_color_mapping)
  have "length (take i (items X)) \<le> length ys" using assms(2) by simp
  moreover have "\<forall>j < length (take i (items X)).
      \<exists>k'. ys ! j = LInt k' \<and> - int (length cs) \<le> k' \<and> k' < int (length cs)"
    using assms(6) by simp
  ultimately have ok: "\<forall>p \<in> set ?pre. \<not> isl (instance_line cs ?colors ?x (Some ys) (fst p) (snd p))"
    using dom by (rule valid_rows_ok)
  have bad: "instance_line cs ?colors ?x (Some ys) i (items X ! i) = Inl (IndexError ?msg)"
    using assms(2,4,5) by (rule instance_line_out_of_bounds)
  from add_instances_first_error [OF ok bad, of ?post "canvas0 env v"] split
  have "loop_result env v X (Some ys) cs =
      Inl (IndexError ?msg, canvas0 env v @ lines_of cs ?colors ?x (Some ys) ?pre)"
    by (simp add: loop_result_def)
  from fit_loop_error [OF assms(3) this]
  have "fit env v X (Some ys) = Inl (IndexError ?msg,
      finished v X cs (canvas0 env v @ lines_of cs ?colors ?x (Some ys) ?pre))" .
  moreover have "?msg = (if - (2 ^ 63) \<le> k \<and> k < 2 ^ 63
      then ''list index out of range'' else cannot_fit)"
    by (simp add: maxsize_def out_of_range_def)
  moreover have "length (lines_of cs ?colors ?x (Some ys) ?pre) = i"
    using assms(1) by simp
  moreover note lines_of_only_plots [OF ok] lines_of_plots(2) [OF ok]
  ultimately show ?thesis by simp
qed

theorem fit_label_out_of_bounds_witness:
  "(\<exists>s. fit ex_env ex_classed ex_X (Some [LInt 0, LInt 5]) =
          Inl (IndexError ''list index out of range'', s) \<and>
       length (drawn ex_env ex_classed s) = 1 \<and>
       (\<forall>c \<in> set (drawn ex_env ex_classed s). is_Plot c) \<and>
       map plot_row (drawn ex_env ex_classed s) = [[1, 2, 3]]) \<and>
   (\<exists>s. fit ex_env ex_classed ex_X (Some [LInt 0, LInt (2 ^ 64)]) =
          Inl (IndexError cannot_fit, s) \<and>
       length (drawn ex_env ex_classed s) = 1 \<and>
       (\<forall>c \<in> set (drawn ex_env ex_classed s). is_Plot c) \<and>
       map plot_row (drawn ex_env ex_classed s) = [[1, 2, 3]])"
proof -
  have h1: "1 < length (items ex_X)" by (simp add: ex_X_def)
  have h2: "1 < length [LInt 0, LInt n]" for n by simp
  have h3: "resolve_classes ex_env ex_classed (Some [LInt 0, LInt n]) = Inr [''x'', ''y'']" for n
    by (simp add: resolve_classes_def ex_classed_def init_def)
  have h4: "[LInt 0, LInt n] ! 1 = LInt n" for n by simp
  have h5: "5 < - int (length [''x'', ''y'']) \<or> int (length [''x'', ''y'']) \<le> 5" by simp
  have h5': "2 ^ 64 < - int (length [''x'', ''y'']) \<or> int (length [''x'', ''y'']) \<le> 2 ^ 64"
    by simp
  have h6: "\<forall>j < 1. \<exists>k'. [LInt 0, LInt n] ! j = LInt k' \<and> - int (length [''x'', ''y'']) \<le> k' \<and>
      k' < int (length [''x'', ''y''])" for n by simp
  have h7: "length (color_values ex_env ex_classed [''x'', ''y'']) = length [''x'', ''y'']"
    by (simp add: color_values_def ex_env_def)
  from fit_label_out_of_bounds [OF h1 h2 h3 h4 h5 h6 h7]
    fit_label_out_of_bounds [OF h1 h2 h3 h4 h5' h6 h7]
  show ?thesis by (simp add: ex_X_def)
qed

text \<open>
  A first label out of bounds and a second label out of bounds raise the same error.
\<close>

theorem fit_label_error_counterexample:
  "fit ex_env ex_classed ex_X (Some [LInt 5, LInt 0]) =
     Inl (IndexError ''list index out of range'',
          \<lparr> ax = Some [],
            self_features = Some [''0'', ''1'', ''2''],
            self_classes = Some [''x'', ''y''],
            color = None,
            colormap = None,
            show_vlines = True,
            vlines_kwds = [(''linewidth'', KInt 1), (''color'', KStr ''black'')] \<rparr>) \<and>
   fit ex_env ex_classed ex_X (Some [LInt 0, LInt 5]) =
     Inl (IndexError ''list index out of range'',
          \<lparr> ax = Some [Plot [0, 1, 2] [1, 2, 3] ''C0'' ''x''],
            self_features = Some [''0'', ''1'', ''2''],
            self_classes = Some [''x'', ''y''],
            color = None,
            colormap = None,
            show_vlines = True,
            vlines_kwds = [(''linewidth'', KInt 1), (''color'', KStr ''black'')] \<rparr>)"
  by code_simp

end
